theory Spec2Isabelle
  imports Complex_Main
begin

section \<open>Python values and exceptions\<close>

text \<open>
  The exceptions the modelled code can raise: the three that Python's \<^verbatim>\<open>int()\<close> and
  \<^verbatim>\<open>float()\<close> raise, and the two error classes of the Sudoku engine's specification.
\<close>

datatype error = TypeError | ValueError | OverflowError | ConfigurationError | RangeError

text \<open>
  A Python float is an IEEE double: a finite value, one of the two infinities, or nan.
  \<open>Fin r\<close> stands for the double whose value is \<open>r\<close>.
\<close>

datatype pyfloat = Fin real | PosInf | NegInf | NaN

text \<open>
  The values the attributes of \<^verbatim>\<open>Physics\<close> are assigned: \<^verbatim>\<open>None\<close>, booleans, integers
  (unbounded), floats, function objects (callable) and other plain objects (neither callable
  nor convertible to a number).
\<close>

datatype pyvalue =
    PyNone
  | PyBool bool
  | PyInt int
  | PyFloat pyfloat
  | PyFunction string
  | PyObject string

fun py_callable :: "pyvalue \<Rightarrow> bool" where
  "py_callable (PyFunction f) = True"
| "py_callable v = False"

text \<open>Truth value of an object, as \<^verbatim>\<open>or\<close> tests it (nan and the infinities are true).\<close>

fun truthy :: "pyvalue \<Rightarrow> bool" where
  "truthy PyNone = False"
| "truthy (PyBool b) = b"
| "truthy (PyInt i) = (i \<noteq> 0)"
| "truthy (PyFloat (Fin r)) = (r \<noteq> 0)"
| "truthy (PyFloat f) = True"
| "truthy (PyFunction f) = True"
| "truthy (PyObject obj) = True"

definition py_or :: "pyvalue \<Rightarrow> pyvalue \<Rightarrow> pyvalue" where
  "py_or a b = (if truthy a then a else b)"

text \<open>
  \<^verbatim>\<open>float(i)\<close> of an integer is the double nearest to \<open>i\<close> (\<open>rnd\<close>, round to nearest, a
  parameter of the model), and raises OverflowError from \<open>2^1024 - 2^970\<close> on, the first
  integer that rounds beyond the largest double.
\<close>

definition float_overflow :: int where
  "float_overflow = 2 ^ 1024 - 2 ^ 970"

definition float_of_int :: "(real \<Rightarrow> real) \<Rightarrow> int \<Rightarrow> error + pyfloat" where
  "float_of_int rnd i =
     (if float_overflow \<le> \<bar>i\<bar> then Inl OverflowError else Inr (Fin (rnd (of_int i))))"

fun py_float :: "(real \<Rightarrow> real) \<Rightarrow> pyvalue \<Rightarrow> error + pyfloat" where
  "py_float rnd PyNone = Inl TypeError"
| "py_float rnd (PyBool b) = Inr (Fin (if b then 1 else 0))"
| "py_float rnd (PyInt i) = float_of_int rnd i"
| "py_float rnd (PyFloat f) = Inr f"
| "py_float rnd (PyFunction f) = Inl TypeError"
| "py_float rnd (PyObject obj) = Inl TypeError"

text \<open>\<^verbatim>\<open>int(x)\<close>: a float is truncated towards zero; the infinities and nan raise.\<close>

definition py_trunc :: "real \<Rightarrow> int" where
  "py_trunc r = (if 0 \<le> r then \<lfloor>r\<rfloor> else \<lceil>r\<rceil>)"

fun py_int :: "pyvalue \<Rightarrow> error + int" where
  "py_int PyNone = Inl TypeError"
| "py_int (PyBool b) = Inr (if b then 1 else 0)"
| "py_int (PyInt i) = Inr i"
| "py_int (PyFloat (Fin r)) = Inr (py_trunc r)"
| "py_int (PyFloat PosInf) = Inl OverflowError"
| "py_int (PyFloat NegInf) = Inl OverflowError"
| "py_int (PyFloat NaN) = Inl ValueError"
| "py_int (PyFunction f) = Inl TypeError"
| "py_int (PyObject obj) = Inl TypeError"

fun float_abs :: "pyfloat \<Rightarrow> pyfloat" where
  "float_abs (Fin r) = Fin \<bar>r\<bar>"
| "float_abs PosInf = PosInf"
| "float_abs NegInf = PosInf"
| "float_abs NaN = NaN"

text \<open>The comparison \<^verbatim>\<open>a < b\<close> of two floats: false whenever one of them is nan.\<close>

fun float_lt :: "pyfloat \<Rightarrow> pyfloat \<Rightarrow> bool" where
  "float_lt NaN b = False"
| "float_lt a NaN = False"
| "float_lt (Fin a) (Fin b) = (a < b)"
| "float_lt (Fin a) PosInf = True"
| "float_lt (Fin a) NegInf = False"
| "float_lt PosInf b = False"
| "float_lt NegInf NegInf = False"
| "float_lt NegInf b = True"

text \<open>\<^verbatim>\<open>min(a, b)\<close> keeps its first argument unless the second is smaller.\<close>

definition float_min :: "pyfloat \<Rightarrow> pyfloat \<Rightarrow> pyfloat" where
  "float_min a b = (if float_lt b a then b else a)"

text \<open>A numeric value: an integer or a float.\<close>

fun numeric :: "pyvalue \<Rightarrow> bool" where
  "numeric (PyInt i) = True"
| "numeric (PyFloat f) = True"
| "numeric v = False"


section \<open>Physics (tkgame\_physics.py)\<close>

text \<open>
  The attributes of a \<^verbatim>\<open>Physics\<close> object that its property setters write. The animation
  pool comes from a module that is not part of the sources and plays no role in the setters.
  \<open>velocity\<close> holds the two coordinates of the \<^verbatim>\<open>Vector2D\<close>.
\<close>

record physics =
  started :: bool
  velocity :: "pyfloat \<times> pyfloat"
  friction :: pyfloat
  gravity :: pyvalue
  framerate :: int
  delay :: int
  dt :: pyfloat
  update_callback :: pyvalue

text \<open>
  \<^verbatim>\<open>self.__framerate = max(1, min(20, int(value)))\<close>,
  \<^verbatim>\<open>self.delay = 1000 // self.__framerate\<close>,
  \<^verbatim>\<open>self.dt = float(self.delay) / 1000.0\<close>.
  The conversion raises before any attribute is written. The float division is correctly
  rounded: \<open>rnd\<close> of the exact quotient.
\<close>

definition framerate_setter :: "(real \<Rightarrow> real) \<Rightarrow> pyvalue \<Rightarrow> physics \<Rightarrow> error + physics" where
  "framerate_setter rnd v s =
     (case py_int v of
        Inl e \<Rightarrow> Inl e
      | Inr k \<Rightarrow>
          (let fr = max 1 (min 20 k);
               dl = 1000 div fr
           in Inr (s\<lparr>framerate := fr, delay := dl, dt := Fin (rnd (of_int dl / 1000))\<rparr>)))"

text \<open>\<^verbatim>\<open>self.__friction = min(1.0, abs(float(value)))\<close>\<close>

definition friction_setter :: "(real \<Rightarrow> real) \<Rightarrow> pyvalue \<Rightarrow> physics \<Rightarrow> error + physics" where
  "friction_setter rnd v s =
     (case py_float rnd v of
        Inl e \<Rightarrow> Inl e
      | Inr f \<Rightarrow> Inr (s\<lparr>friction := float_min (Fin 1) (float_abs f)\<rparr>))"

text \<open>The function \<^verbatim>\<open>lambda *a, **k: None\<close> the setter stores for a value that is not callable.\<close>

definition noop :: pyvalue where
  "noop = PyFunction ''lambda *a, **k: None''"

definition update_callback_setter :: "pyvalue \<Rightarrow> physics \<Rightarrow> physics" where
  "update_callback_setter v s =
     (if py_callable v then s\<lparr>update_callback := v\<rparr> else s\<lparr>update_callback := noop\<rparr>)"

text \<open>
  Calling \<^verbatim>\<open>self.update_callback(...)\<close>, as \<^verbatim>\<open>update_closure\<close> does, raises TypeError
  when the stored value is not callable; what a callable then does is its own business.
\<close>

definition not_callable_error :: "pyvalue \<Rightarrow> error option" where
  "not_callable_error v = (if py_callable v then None else Some TypeError)"

text \<open>\<^verbatim>\<open>kw.get(key)\<close>: the value of the keyword argument, \<^verbatim>\<open>None\<close> when it is absent.\<close>

definition kw_get :: "(string \<rightharpoonup> pyvalue) \<Rightarrow> string \<Rightarrow> pyvalue" where
  "kw_get kw key = (case kw key of None \<Rightarrow> PyNone | Some v \<Rightarrow> v)"

text \<open>
  The object before the constructor has assigned anything; every field is overwritten by
  \<^verbatim>\<open>__init__\<close> (no attribute exists yet in Python).
\<close>

definition blank :: physics where
  "blank = \<lparr>started = False, velocity = (Fin 0, Fin 0), friction = Fin 0, gravity = PyNone,
            framerate = 0, delay = 0, dt = Fin 0, update_callback = PyNone\<rparr>"

text \<open>
  \<^verbatim>\<open>Physics.__init__(**kw)\<close>, in the order of its assignments. \<^verbatim>\<open>self.velocity = None\<close>
  goes through \<^verbatim>\<open>Vector2D(None)\<close>, whose coordinate setters fall back to \<open>0.0\<close>;
  \<^verbatim>\<open>self.friction = 0.0\<close> and the framerate and the callback go through their setters.
\<close>

definition Physics_init :: "(real \<Rightarrow> real) \<Rightarrow> (string \<rightharpoonup> pyvalue) \<Rightarrow> error + physics" where
  "Physics_init rnd kw =
     (let s1 = blank\<lparr>started := False, velocity := (Fin 0, Fin 0)\<rparr>
      in case friction_setter rnd (PyFloat (Fin 0)) s1 of
           Inl e \<Rightarrow> Inl e
         | Inr s2 \<Rightarrow>
             (let s3 = s2\<lparr>gravity := py_or (kw_get kw ''gravity'') (PyFloat (Fin 9.8))\<rparr>
              in case framerate_setter rnd (py_or (kw_get kw ''framerate'') (PyInt 20)) s3 of
                   Inl e \<Rightarrow> Inl e
                 | Inr s4 \<Rightarrow> Inr (update_callback_setter (kw_get kw ''on_frame_update'') s4)))"

text \<open>
  The invariant the framerate setter is to establish: the frame rate lies in \<open>1..20\<close>,
  \<open>delay\<close> is \<^verbatim>\<open>1000 // framerate\<close> and \<open>dt\<close> is the float \<^verbatim>\<open>delay / 1000\<close>.
\<close>

definition framerate_inv :: "(real \<Rightarrow> real) \<Rightarrow> physics \<Rightarrow> bool" where
  "framerate_inv rnd s =
     (1 \<le> framerate s \<and> framerate s \<le> 20 \<and> delay s = 1000 div framerate s
      \<and> dt s = Fin (rnd (of_int (delay s) / 1000)))"

text \<open>The numeric values that are not an infinity or nan.\<close>

fun finite_numeric :: "pyvalue \<Rightarrow> bool" where
  "finite_numeric (PyInt i) = True"
| "finite_numeric (PyFloat (Fin r)) = True"
| "finite_numeric v = False"

text \<open>
  Clamping into \<open>[0, 1]\<close> as the specification words it for the friction: the value
  limited to the interval. This is the specification's function, to compare with the setter.
\<close>

definition clamp01 :: "real \<Rightarrow> real" where
  "clamp01 r = max 0 (min 1 r)"


section \<open>The Sudoku engine (module sudoku\_matrix)\<close>

text \<open>
  The test harness \<^verbatim>\<open>sudoku_matrix_tests.py\<close> imports everything from the module
  \<^verbatim>\<open>sudoku_matrix\<close>, which is not among the sources. The definitions of this section are
  therefore modelled from the specification, each from the sentences its comment names.
\<close>

subsection \<open>CellIndex\<close>

text \<open>
  Modelled from the spec: CellIndex, the mapping between a linear position and a coordinate
  of a grid of side \<open>columns\<close>, is missing from the sources. Section 4.1: a position
  \<open>i\<close> in \<open>[0, N\<^sup>2)\<close> gives \<^verbatim>\<open>(i // columns, i % columns)\<close>, a coordinate gives
  \<^verbatim>\<open>row * columns + column\<close>, and input out of range fails with a RangeError. The side is a
  length; positions and coordinates are Python integers.
\<close>

definition cell_of_position :: "nat \<Rightarrow> int \<Rightarrow> error + int \<times> int" where
  "cell_of_position columns i =
     (if 0 \<le> i \<and> i < int (columns * columns)
      then Inr (i div int columns, i mod int columns)
      else Inl RangeError)"

definition position_of_cell :: "nat \<Rightarrow> int \<times> int \<Rightarrow> error + int" where
  "position_of_cell columns rc =
     (case rc of (row, column) \<Rightarrow>
        if 0 \<le> row \<and> row < int columns \<and> 0 \<le> column \<and> column < int columns
        then Inr (row * int columns + column)
        else Inl RangeError)"

subsection \<open>Grids and the grid verifier\<close>

text \<open>
  Modelled from the spec: the raw grid of section 3, an \<open>N \<times> N\<close> array of symbols \<open>1..N\<close>
  in which a cell may be empty (\<open>None\<close>).
\<close>

type_synonym grid = "nat option list list"

text \<open>
  Modelled from the spec: the box size of a side, which the missing module derives. Section
  3: \<open>box_size = \<surd>N\<close>, which must be an integer; there is none when the side is not a
  perfect square.
\<close>

definition box_size_of :: "nat \<Rightarrow> nat option" where
  "box_size_of n = find (\<lambda>b. b * b = n) [0..<Suc n]"

text \<open>
  Modelled from the spec: the rows, the columns and the boxes of a grid (section 4.3), each
  as the list of its cells; box \<open>(i, j)\<close> of size \<open>b\<close> holds the rows \<open>i * b\<close> to
  \<open>i * b + b - 1\<close> of the columns \<open>j * b\<close> to \<open>j * b + b - 1\<close>.
\<close>

definition grid_column :: "grid \<Rightarrow> nat \<Rightarrow> nat option list" where
  "grid_column g c = map (\<lambda>r. g ! r ! c) [0..<length g]"

definition grid_box :: "nat \<Rightarrow> grid \<Rightarrow> nat \<Rightarrow> nat \<Rightarrow> nat option list" where
  "grid_box b g i j = map (\<lambda>k. g ! (i * b + k div b) ! (j * b + k mod b)) [0..<b * b]"

definition grid_rows :: "grid \<Rightarrow> nat option list list" where
  "grid_rows g = g"

definition grid_columns :: "grid \<Rightarrow> nat option list list" where
  "grid_columns g = map (grid_column g) [0..<length g]"

definition grid_boxes :: "nat \<Rightarrow> grid \<Rightarrow> nat option list list" where
  "grid_boxes b g = concat (map (\<lambda>i. map (grid_box b g i) [0..<b]) [0..<b])"

text \<open>The values of the cells of a row, column or box that are not empty.\<close>

definition present :: "nat option list \<Rightarrow> nat list" where
  "present u = map the (filter (\<lambda>x. x \<noteq> None) u)"

text \<open>
  Modelled from the spec: the check of one row, column or box, section 4.3: the set of
  non-empty values must equal exactly \<open>{1..N}\<close> with no repeats; if any cell is empty, the
  row, column or box is checked only over its non-empty subset, which must still be
  duplicate-free.
\<close>

definition unit_ok :: "nat \<Rightarrow> nat option list \<Rightarrow> bool" where
  "unit_ok n u =
     (if None \<in> set u then distinct (present u)
      else distinct (present u) \<and> set (present u) = {1..n})"

text \<open>
  Modelled from the spec: \<^verbatim>\<open>is_correct_grid\<close> is missing from the sources. Section 4.3: for
  a grid of side \<open>N\<close> with box size \<open>b = \<surd>N\<close>, each of the \<open>N\<close> rows, \<open>N\<close> columns and
  \<open>N\<close> boxes is checked; the function throws a ConfigurationError only if the grid
  dimensions are inconsistent (non-square, ragged rows), and returns false, never throwing,
  on a structural mismatch, here a side that has no box size.
\<close>

definition is_correct_grid :: "grid \<Rightarrow> error + bool" where
  "is_correct_grid g =
     (let n = length g in
      if list_ex (\<lambda>row. length row \<noteq> n) g then Inl ConfigurationError
      else case box_size_of n of
             None \<Rightarrow> Inr False
           | Some b \<Rightarrow>
               Inr (list_all (unit_ok n) (grid_rows g @ grid_columns g @ grid_boxes b g)))"

section \<open>Properties of Physics\<close>

subsection \<open>The friction setter\<close>

lemma float_min_Fin: "float_min (Fin a) (Fin b) = Fin (min a b)"
  by (simp add: float_min_def min_def)

lemma float_min_one_range:
  "\<exists>q. float_min (Fin 1) (float_abs f) = Fin q \<and> 0 \<le> q \<and> q \<le> 1"
  by (cases f) (simp_all add: float_min_def)

text \<open>
  Claim C8, as the specification states it: assigning a numeric value to
  \<^verbatim>\<open>Physics.friction\<close> stores the value limited to \<open>[0, 1]\<close>, so a value below \<open>0\<close> is
  stored as \<open>0.0\<close>. The setter does not do that: it takes the absolute value first, and
  assigning \<open>-0.5\<close> stores \<open>0.5\<close>, not \<open>clamp01 (-0.5) = 0\<close>.
\<close>

theorem friction_setter_not_clamp:
  "friction_setter (\<lambda>x. x) (PyFloat (Fin (- 1 / 2))) blank
     \<noteq> Inr (blank\<lparr>friction := Fin (clamp01 (- 1 / 2))\<rparr>)"
  by (simp add: friction_setter_def float_min_def clamp01_def blank_def)

text \<open>
  Claim C8, amended: the setter stores \<^verbatim>\<open>min(1.0, abs(float(value)))\<close>. For a finite float
  \<open>r\<close> that is \<open>min 1 \<bar>r\<bar>\<close>: a value in \<open>[0, 1]\<close> is stored unchanged, a value of
  magnitude above \<open>1\<close> as \<open>1.0\<close>, and a negative value down to \<open>-1\<close> as its absolute
  value. The infinities and nan store \<open>1.0\<close>. An integer below the float overflow bound is
  stored as \<open>min 1 \<bar>i\<bar>\<close> (rounding to the nearest double fixes \<open>0\<close> and never takes a
  magnitude of at least \<open>1\<close> below \<open>1\<close>); from the bound on the conversion raises
  OverflowError. Whatever value the assignment accepts, the stored friction lies in \<open>[0, 1]\<close>.
\<close>

theorem friction_setter_stores_capped_magnitude:
  fixes rnd :: "real \<Rightarrow> real"
  assumes rnd0: "rnd 0 = 0" and rnd1: "\<And>x. 1 \<le> \<bar>x\<bar> \<Longrightarrow> 1 \<le> \<bar>rnd x\<bar>"
  shows "friction_setter rnd (PyFloat (Fin r)) s = Inr (s\<lparr>friction := Fin (min 1 \<bar>r\<bar>)\<rparr>)
       \<and> friction_setter rnd (PyFloat PosInf) s = Inr (s\<lparr>friction := Fin 1\<rparr>)
       \<and> friction_setter rnd (PyFloat NegInf) s = Inr (s\<lparr>friction := Fin 1\<rparr>)
       \<and> friction_setter rnd (PyFloat NaN) s = Inr (s\<lparr>friction := Fin 1\<rparr>)
       \<and> (\<bar>i\<bar> < float_overflow \<longrightarrow>
            friction_setter rnd (PyInt i) s = Inr (s\<lparr>friction := Fin (min 1 \<bar>of_int i\<bar>)\<rparr>))
       \<and> (float_overflow \<le> \<bar>i\<bar> \<longrightarrow> friction_setter rnd (PyInt i) s = Inl OverflowError)
       \<and> (friction_setter rnd v s = Inr s' \<longrightarrow>
            (\<exists>q. friction s' = Fin q \<and> 0 \<le> q \<and> q \<le> 1))"
proof -
  have fl: "friction_setter rnd (PyFloat (Fin r)) s = Inr (s\<lparr>friction := Fin (min 1 \<bar>r\<bar>)\<rparr>)"
    by (simp add: friction_setter_def float_min_Fin)
  have inf: "friction_setter rnd (PyFloat PosInf) s = Inr (s\<lparr>friction := Fin 1\<rparr>)"
    "friction_setter rnd (PyFloat NegInf) s = Inr (s\<lparr>friction := Fin 1\<rparr>)"
    "friction_setter rnd (PyFloat NaN) s = Inr (s\<lparr>friction := Fin 1\<rparr>)"
    by (simp_all add: friction_setter_def float_min_def)
  have int_ok: "friction_setter rnd (PyInt i) s = Inr (s\<lparr>friction := Fin (min 1 \<bar>of_int i\<bar>)\<rparr>)"
    if "\<bar>i\<bar> < float_overflow"
  proof (cases "i = 0")
    case True
    with that show ?thesis
      by (simp add: friction_setter_def float_of_int_def float_min_Fin rnd0)
  next
    case False
    then have big: "1 \<le> \<bar>real_of_int i\<bar>" by linarith
    then have "1 \<le> \<bar>rnd (real_of_int i)\<bar>" by (rule rnd1)
    with big that show ?thesis
      by (simp add: friction_setter_def float_of_int_def float_min_Fin)
  qed
  have int_bad: "friction_setter rnd (PyInt i) s = Inl OverflowError"
    if "float_overflow \<le> \<bar>i\<bar>"
    using that by (simp add: friction_setter_def float_of_int_def)
  have rng: "\<exists>q. friction s' = Fin q \<and> 0 \<le> q \<and> q \<le> 1"
    if "friction_setter rnd v s = Inr s'"
  proof -
    from that obtain f where "s' = s\<lparr>friction := float_min (Fin 1) (float_abs f)\<rparr>"
      by (auto simp: friction_setter_def split: sum.splits)
    then show ?thesis using float_min_one_range [of f] by simp
  qed
  from fl inf int_ok int_bad rng show ?thesis by blast
qed

theorem friction_setter_stores_capped_magnitude_witness:
  "friction_setter (\<lambda>x. x) (PyFloat (Fin (- 1 / 2))) blank = Inr (blank\<lparr>friction := Fin (1 / 2)\<rparr>)
   \<and> friction_setter (\<lambda>x. x) (PyInt (- 3)) blank = Inr (blank\<lparr>friction := Fin 1\<rparr>)
   \<and> friction_setter (\<lambda>x. x) (PyInt (2 ^ 1024)) blank = Inl OverflowError"
proof -
  have a: "\<bar>- 3 :: int\<bar> < float_overflow" by (simp add: float_overflow_def)
  have b: "float_overflow \<le> \<bar>2 ^ 1024 :: int\<bar>" by (simp add: float_overflow_def)
  have c: "(\<lambda>x::real. x) 0 = 0" by simp
  have d: "\<And>x::real. 1 \<le> \<bar>x\<bar> \<Longrightarrow> 1 \<le> \<bar>(\<lambda>x. x) x\<bar>" by simp
  from friction_setter_stores_capped_magnitude [of "\<lambda>x. x" "- 1 / 2" blank "- 3", OF c d] a
    friction_setter_stores_capped_magnitude [of "\<lambda>x. x" 0 blank "2 ^ 1024", OF c d] b
  show ?thesis by simp
qed

subsection \<open>The update callback\<close>

lemma update_callback_setter_stored:
  "update_callback (update_callback_setter v s) = (if py_callable v then v else noop)"
  by (simp add: update_callback_setter_def)

lemma Physics_init_callback:
  assumes "Physics_init rnd kw = Inr p"
  shows "update_callback p =
           (if py_callable (kw_get kw ''on_frame_update'') then kw_get kw ''on_frame_update''
            else noop)"
  using assms
  by (auto simp: Physics_init_def Let_def update_callback_setter_stored split: sum.splits)

text \<open>
  Claim C9: every assignment to \<^verbatim>\<open>update_callback\<close> stores the value given when it is
  callable and the no-op function otherwise, and so does the constructor with the keyword
  argument \<^verbatim>\<open>on_frame_update\<close> (\<^verbatim>\<open>None\<close> when absent) whenever it returns an object; the
  stored callback is therefore callable, and calling it never raises for being non-callable,
  whatever value was given.
\<close>

theorem update_callback_always_callable:
  "update_callback (update_callback_setter v s) = (if py_callable v then v else noop)
   \<and> py_callable (update_callback (update_callback_setter v s))
   \<and> not_callable_error (update_callback (update_callback_setter v s)) = None
   \<and> (Physics_init rnd kw = Inr p \<longrightarrow>
        update_callback p =
          (if py_callable (kw_get kw ''on_frame_update'') then kw_get kw ''on_frame_update''
           else noop)
        \<and> py_callable (update_callback p)
        \<and> not_callable_error (update_callback p) = None)"
  by (auto simp: update_callback_setter_stored Physics_init_callback noop_def
      not_callable_error_def)

theorem update_callback_always_callable_witness:
  "(\<exists>p. Physics_init (\<lambda>x. x) [''on_frame_update'' \<mapsto> PyInt 3] = Inr p
        \<and> update_callback p = noop \<and> py_callable (update_callback p))
   \<and> (\<exists>p. Physics_init (\<lambda>x. x) [''on_frame_update'' \<mapsto> PyFunction ''f''] = Inr p
        \<and> update_callback p = PyFunction ''f'')"
proof -
  have ex: "\<exists>p. Physics_init (\<lambda>x. x) [''on_frame_update'' \<mapsto> c] = Inr p" for c
    by (simp add: Physics_init_def Let_def friction_setter_def framerate_setter_def kw_get_def
        py_or_def)
  obtain p1 where p1: "Physics_init (\<lambda>x. x) [''on_frame_update'' \<mapsto> PyInt 3] = Inr p1"
    using ex by blast
  obtain p2 where p2: "Physics_init (\<lambda>x. x) [''on_frame_update'' \<mapsto> PyFunction ''f''] = Inr p2"
    using ex by blast
  from update_callback_always_callable
      [of "PyNone" blank "\<lambda>x. x" "[''on_frame_update'' \<mapsto> PyInt 3]" p1] p1
  have "update_callback p1 = noop \<and> py_callable (update_callback p1)"
    by (simp add: kw_get_def noop_def)
  moreover from update_callback_always_callable
      [of "PyNone" blank "\<lambda>x. x" "[''on_frame_update'' \<mapsto> PyFunction ''f'']" p2] p2
  have "update_callback p2 = PyFunction ''f''"
    by (simp add: kw_get_def)
  ultimately show ?thesis using p1 p2 by blast
qed

subsection \<open>The framerate setter\<close>

lemma framerate_setter_ok:
  assumes "py_int v = Inr k"
  shows "framerate_setter rnd v s =
           Inr (s\<lparr>framerate := max 1 (min 20 k), delay := 1000 div max 1 (min 20 k),
                  dt := Fin (rnd (of_int (1000 div max 1 (min 20 k)) / 1000))\<rparr>)"
  using assms by (simp add: framerate_setter_def Let_def)

lemma finite_numeric_int: "finite_numeric v \<Longrightarrow> \<exists>k. py_int v = Inr k"
  by (induction v rule: finite_numeric.induct) simp_all

text \<open>
  Claim C10, as the specification states it, holds for every numeric value. It does not:
  nan is a numeric value (a float), and assigning it raises ValueError in \<^verbatim>\<open>int(value)\<close>,
  so that no frame rate is established.
\<close>

theorem framerate_setter_nan_raises:
  "numeric (PyFloat NaN) \<and> framerate_setter (\<lambda>x. x) (PyFloat NaN) blank = Inl ValueError"
  by (simp add: framerate_setter_def)

text \<open>
  Claim C10, amended: every assignment of an integer or of a finite float to
  \<^verbatim>\<open>Physics.framerate\<close> succeeds and establishes the invariant: the frame rate is
  \<^verbatim>\<open>int(value)\<close> (the integer itself, a float truncated towards zero) clamped to \<open>1..20\<close>,
  \<open>delay\<close> is \<^verbatim>\<open>1000 // framerate\<close> and \<open>dt\<close> is the float \<^verbatim>\<open>delay / 1000\<close>. Assigning an
  infinity raises OverflowError and assigning nan raises ValueError; the setter then has
  written nothing.
\<close>

theorem framerate_setter_invariant:
  "(finite_numeric v \<longrightarrow>
      (\<exists>k s'. py_int v = Inr k \<and> framerate_setter rnd v s = Inr s'
         \<and> framerate s' = max 1 (min 20 k) \<and> framerate_inv rnd s'))
   \<and> py_int (PyInt i) = Inr i
   \<and> py_int (PyFloat (Fin r)) = Inr (if 0 \<le> r then \<lfloor>r\<rfloor> else \<lceil>r\<rceil>)
   \<and> framerate_setter rnd (PyFloat PosInf) s = Inl OverflowError
   \<and> framerate_setter rnd (PyFloat NegInf) s = Inl OverflowError
   \<and> framerate_setter rnd (PyFloat NaN) s = Inl ValueError"
proof -
  have a: "\<exists>k s'. py_int v = Inr k \<and> framerate_setter rnd v s = Inr s'
         \<and> framerate s' = max 1 (min 20 k) \<and> framerate_inv rnd s'" if "finite_numeric v"
  proof -
    from that obtain k where k: "py_int v = Inr k" using finite_numeric_int by blast
    show ?thesis
      using k by (simp add: framerate_setter_ok [OF k] framerate_inv_def)
  qed
  have b: "py_int (PyInt i) = Inr i"
    "py_int (PyFloat (Fin r)) = Inr (if 0 \<le> r then \<lfloor>r\<rfloor> else \<lceil>r\<rceil>)"
    by (simp_all add: py_trunc_def)
  have c: "framerate_setter rnd (PyFloat PosInf) s = Inl OverflowError"
    "framerate_setter rnd (PyFloat NegInf) s = Inl OverflowError"
    "framerate_setter rnd (PyFloat NaN) s = Inl ValueError"
    by (simp_all add: framerate_setter_def)
  from a b c show ?thesis by blast
qed

theorem framerate_setter_invariant_witness:
  "finite_numeric (PyFloat (Fin (77 / 2)))
   \<and> (\<exists>s'. framerate_setter (\<lambda>x. x) (PyFloat (Fin (77 / 2))) blank = Inr s'
         \<and> framerate s' = 20 \<and> delay s' = 50 \<and> dt s' = Fin (50 / 1000))
   \<and> finite_numeric (PyInt (- 4))
   \<and> (\<exists>s'. framerate_setter (\<lambda>x. x) (PyInt (- 4)) blank = Inr s'
         \<and> framerate s' = 1 \<and> delay s' = 1000 \<and> dt s' = Fin 1)"
  using framerate_setter_invariant [of "PyFloat (Fin (77 / 2))" "\<lambda>x. x" blank]
    framerate_setter_invariant [of "PyInt (- 4)" "\<lambda>x. x" blank]
  by (auto simp: framerate_inv_def py_trunc_def)

section \<open>Properties of the Sudoku engine\<close>

subsection \<open>CellIndex\<close>

lemma div_lt_side:
  fixes i n :: int
  assumes "0 \<le> i" "i < n * n" "0 < n"
  shows "0 \<le> i div n \<and> i div n < n \<and> 0 \<le> i mod n \<and> i mod n < n"
proof -
  have "i div n < n"
  proof (rule ccontr)
    assume "\<not> i div n < n"
    then have "n \<le> i div n" by simp
    then have "n * n \<le> n * (i div n)" using assms(3) by (intro mult_left_mono) auto
    moreover have "n * (i div n) + i mod n = i" by simp
    moreover have "0 \<le> i mod n" using assms(3) by simp
    ultimately show False using assms(2) by linarith
  qed
  with assms show ?thesis by (simp add: pos_imp_zdiv_nonneg_iff)
qed

lemma pos_lt_square:
  fixes r c n :: int
  assumes "0 \<le> r" "r < n" "0 \<le> c" "c < n"
  shows "0 \<le> r * n + c \<and> r * n + c < n * n"
proof -
  have "r + 1 \<le> n" using assms by simp
  then have "(r + 1) * n \<le> n * n" using assms by (intro mult_right_mono) auto
  then show ?thesis using assms by (simp add: algebra_simps)
qed

lemma side_pos: "0 \<le> (i::int) \<Longrightarrow> i < int (columns * columns) \<Longrightarrow> 0 < columns"
  by (cases columns) auto

text \<open>
  Claim C6: CellIndex is a bijection between the linear positions and the coordinates of a
  grid of side \<open>columns\<close>. A position \<open>i\<close> in \<open>[0, N\<^sup>2)\<close> is mapped to
  \<^verbatim>\<open>(i // columns, i % columns)\<close>, and mapping that coordinate back gives \<open>i\<close>; a
  coordinate with both components in \<open>[0, N)\<close> is mapped to \<^verbatim>\<open>row * columns + column\<close>,
  and mapping that position back gives the coordinate; input out of range fails with a
  RangeError, in both directions.
\<close>

theorem cell_index_round_trip:
  "(0 \<le> i \<and> i < int (columns * columns) \<longrightarrow>
      cell_of_position columns i = Inr (i div int columns, i mod int columns)
      \<and> position_of_cell columns (i div int columns, i mod int columns) = Inr i)
   \<and> (0 \<le> r \<and> r < int columns \<and> 0 \<le> c \<and> c < int columns \<longrightarrow>
      position_of_cell columns (r, c) = Inr (r * int columns + c)
      \<and> cell_of_position columns (r * int columns + c) = Inr (r, c))
   \<and> (\<not> (0 \<le> i \<and> i < int (columns * columns)) \<longrightarrow>
        cell_of_position columns i = Inl RangeError)
   \<and> (\<not> (0 \<le> r \<and> r < int columns \<and> 0 \<le> c \<and> c < int columns) \<longrightarrow>
        position_of_cell columns (r, c) = Inl RangeError)"
proof -
  have a: "cell_of_position columns i = Inr (i div int columns, i mod int columns)
      \<and> position_of_cell columns (i div int columns, i mod int columns) = Inr i"
    if "0 \<le> i" "i < int (columns * columns)"
  proof -
    have "0 < int columns" using side_pos [OF that] by simp
    with that div_lt_side [of i "int columns"] show ?thesis
      by (simp add: cell_of_position_def position_of_cell_def)
  qed
  have b: "position_of_cell columns (r, c) = Inr (r * int columns + c)
      \<and> cell_of_position columns (r * int columns + c) = Inr (r, c)"
    if "0 \<le> r" "r < int columns" "0 \<le> c" "c < int columns"
    using that pos_lt_square [OF that]
    by (simp add: cell_of_position_def position_of_cell_def)
  have c: "cell_of_position columns i = Inl RangeError"
    if "\<not> (0 \<le> i \<and> i < int (columns * columns))"
    using that by (simp add: cell_of_position_def)
  have d: "position_of_cell columns (r, c) = Inl RangeError"
    if "\<not> (0 \<le> r \<and> r < int columns \<and> 0 \<le> c \<and> c < int columns)"
    using that by (auto simp add: position_of_cell_def)
  from a b c d show ?thesis by blast
qed

theorem cell_index_round_trip_witness:
  "cell_of_position 9 80 = Inr (8, 8) \<and> position_of_cell 9 (8, 8) = Inr 80
   \<and> position_of_cell 9 (2, 3) = Inr 21 \<and> cell_of_position 9 21 = Inr (2, 3)
   \<and> cell_of_position 9 81 = Inl RangeError \<and> position_of_cell 9 (9, 0) = Inl RangeError
   \<and> cell_of_position 9 (- 1) = Inl RangeError"
  using cell_index_round_trip [of 80 9 2 3] cell_index_round_trip [of 81 9 9 0]
    cell_index_round_trip [of "- 1" 9 0 0]
  by simp

subsection \<open>The grid verifier\<close>

lemma box_size_of_square: "box_size_of (b * b) = Some b"
proof -
  have le: "b \<le> b * b" by (cases b) simp_all
  have nth: "[0..<Suc (b * b)] ! k = k" if "k \<le> b * b" for k
    using that nth_upt [of 0 k "Suc (b * b)"] by simp
  have "[0..<Suc (b * b)] ! j * [0..<Suc (b * b)] ! j \<noteq> b * b" if "j < b" for j
  proof -
    from that have "j * j < b * b" by (simp add: mult_strict_mono')
    moreover from that le have "j \<le> b * b" by linarith
    ultimately show ?thesis by (simp add: nth del: upt_Suc)
  qed
  note before = this
  have "b < length [0..<Suc (b * b)] \<and> [0..<Suc (b * b)] ! b * [0..<Suc (b * b)] ! b = b * b
      \<and> b = [0..<Suc (b * b)] ! b"
    using le nth [OF le] by (simp add: less_Suc_eq_le del: upt_Suc)
  with before show ?thesis
    unfolding box_size_of_def find_Some_iff by blast
qed

lemma box_size_of_Some: "box_size_of n = Some b \<Longrightarrow> b * b = n"
  unfolding box_size_of_def find_Some_iff by auto

lemma row_in_units: "r < length g \<Longrightarrow> g ! r \<in> set (grid_rows g @ grid_columns g @ grid_boxes b g)"
  by (simp add: grid_rows_def)

lemma column_in_units:
  "c < length g \<Longrightarrow> grid_column g c \<in> set (grid_rows g @ grid_columns g @ grid_boxes b g)"
  by (simp add: grid_columns_def)

lemma box_in_units:
  "i < b \<Longrightarrow> j < b \<Longrightarrow> grid_box b g i j \<in> set (grid_rows g @ grid_columns g @ grid_boxes b g)"
proof -
  assume "i < b" "j < b"
  then have "grid_box b g i j \<in> set (grid_boxes b g)"
    by (force simp add: grid_boxes_def)
  then show ?thesis by simp
qed

lemma unit_ok_iff:
  "unit_ok n u \<longleftrightarrow> distinct (present u) \<and> (None \<notin> set u \<longrightarrow> set (present u) = {1..n})"
  by (simp add: unit_ok_def)

lemma is_correct_grid_square:
  assumes "\<forall>row \<in> set g. length row = length g" "box_size_of (length g) = Some b"
  shows "is_correct_grid g =
           Inr (\<forall>u \<in> set (grid_rows g @ grid_columns g @ grid_boxes b g). unit_ok (length g) u)"
  using assms by (simp add: is_correct_grid_def Let_def list_ex_iff list_all_iff)

lemma is_correct_grid_Inl:
  "is_correct_grid g = Inl e \<longleftrightarrow> e = ConfigurationError \<and> (\<exists>row \<in> set g. length row \<noteq> length g)"
  by (auto simp: is_correct_grid_def Let_def list_ex_iff split: option.splits)

lemma is_correct_grid_duplicate:
  assumes sq: "\<forall>row \<in> set g. length row = length g"
    and u: "u \<in> set (grid_rows g @ grid_columns g @ grid_boxes b g)"
    and b: "b * b = length g"
    and dup: "\<not> distinct (present u)"
  shows "is_correct_grid g = Inr False"
proof -
  from b have "box_size_of (length g) = Some b" using box_size_of_square [of b] by simp
  from is_correct_grid_square [OF sq this] u dup show ?thesis
    by (auto simp: unit_ok_iff)
qed

lemma is_correct_grid_no_box:
  assumes sq: "\<forall>row \<in> set g. length row = length g" and "box_size_of (length g) = None"
  shows "is_correct_grid g = Inr False"
  using assms by (simp add: is_correct_grid_def Let_def list_ex_iff)

text \<open>
  Claim C7: \<^verbatim>\<open>is_correct_grid\<close> raises only a ConfigurationError, and only when some row's
  length differs from the number of rows (a ragged or non-square grid). On a grid whose
  rows all have the length of the grid, it returns false whenever the non-empty values of
  some row, of some column or of some box repeat. And on such a grid of box size \<open>b\<close> its
  answer is exactly that every row, column and box has non-empty values without repeats
  and, when it has no empty cell, values that make up \<open>{1..N}\<close>: a row, column or box with
  an empty cell is checked over its non-empty values only.
\<close>

theorem is_correct_grid_false_never_raises:
  "(is_correct_grid g = Inl e \<longleftrightarrow>
      e = ConfigurationError \<and> (\<exists>row \<in> set g. length row \<noteq> length g))
   \<and> ((\<forall>row \<in> set g. length row = length g)
        \<and> ((\<exists>r < length g. \<not> distinct (present (g ! r)))
           \<or> (\<exists>c < length g. \<not> distinct (present (grid_column g c)))
           \<or> (\<exists>b i j. b * b = length g \<and> i < b \<and> j < b \<and> \<not> distinct (present (grid_box b g i j))))
      \<longrightarrow> is_correct_grid g = Inr False)
   \<and> ((\<forall>row \<in> set g. length row = length g) \<and> b * b = length g \<longrightarrow>
        is_correct_grid g =
          Inr (\<forall>u \<in> set (grid_rows g @ grid_columns g @ grid_boxes b g).
                 distinct (present u) \<and> (None \<notin> set u \<longrightarrow> set (present u) = {1..length g})))"
proof -
  have raises: "is_correct_grid g = Inl e \<longleftrightarrow>
      e = ConfigurationError \<and> (\<exists>row \<in> set g. length row \<noteq> length g)"
    by (rule is_correct_grid_Inl)
  have false: "is_correct_grid g = Inr False"
    if sq: "\<forall>row \<in> set g. length row = length g"
      and v: "(\<exists>r < length g. \<not> distinct (present (g ! r)))
           \<or> (\<exists>c < length g. \<not> distinct (present (grid_column g c)))
           \<or> (\<exists>b i j. b * b = length g \<and> i < b \<and> j < b \<and> \<not> distinct (present (grid_box b g i j)))"
  proof (cases "box_size_of (length g)")
    case None
    with sq show ?thesis by (rule is_correct_grid_no_box)
  next
    case (Some b')
    then have b': "b' * b' = length g" by (rule box_size_of_Some)
    from v consider
      (row) r where "r < length g" "\<not> distinct (present (g ! r))"
      | (col) c where "c < length g" "\<not> distinct (present (grid_column g c))"
      | (box) b i j where "b * b = length g" "i < b" "j < b"
          "\<not> distinct (present (grid_box b g i j))"
      by blast
    then show ?thesis
    proof cases
      case row
      then show ?thesis
        using is_correct_grid_duplicate [OF sq row_in_units b'] by blast
    next
      case col
      then show ?thesis
        using is_correct_grid_duplicate [OF sq column_in_units b'] by blast
    next
      case box
      then show ?thesis
        using is_correct_grid_duplicate [OF sq box_in_units] by blast
    qed
  qed
  have partial: "is_correct_grid g =
          Inr (\<forall>u \<in> set (grid_rows g @ grid_columns g @ grid_boxes b g).
                 distinct (present u) \<and> (None \<notin> set u \<longrightarrow> set (present u) = {1..length g}))"
    if sq: "\<forall>row \<in> set g. length row = length g" and b: "b * b = length g"
  proof -
    from b have "box_size_of (length g) = Some b" using box_size_of_square [of b] by simp
    from is_correct_grid_square [OF sq this] show ?thesis by (simp add: unit_ok_iff)
  qed
  from raises false partial show ?thesis by blast
qed


theorem is_correct_grid_false_never_raises_witness:
  "is_correct_grid [[Some 1, Some 1, None, None], [None, None, None, None],
                    [None, None, None, None], [None, None, None, None]] = Inr False
   \<and> is_correct_grid [[Some 1, None], [None]] = Inl ConfigurationError
   \<and> is_correct_grid [[Some 1, None, None, Some 4], [None, Some 4, None, None],
                      [None, None, Some 4, None], [Some 4, None, None, Some 2]] = Inr True"
proof -
  let ?d = "[[Some 1, Some 1, None, None], [None, None, None, None],
             [None, None, None, None], [None, None, None, None :: nat option]]"
  let ?r = "[[Some 1, None], [None :: nat option]]"
  let ?p = "[[Some 1, None, None, Some 4], [None, Some 4, None, None],
             [None, None, Some 4, None], [Some 4, None, None, Some (2::nat)]]"
  have "\<forall>row \<in> set ?d. length row = length ?d" by simp
  moreover have "\<exists>r < length ?d. \<not> distinct (present (?d ! r))"
    by (intro exI [of _ 0]) (simp add: present_def)
  ultimately have d: "is_correct_grid ?d = Inr False"
    using is_correct_grid_false_never_raises [of ?d ConfigurationError 2] by blast
  have "\<exists>row \<in> set ?r. length row \<noteq> length ?r" by simp
  then have r: "is_correct_grid ?r = Inl ConfigurationError"
    using is_correct_grid_false_never_raises [of ?r ConfigurationError 2] by blast
  have "\<forall>row \<in> set ?p. length row = length ?p" by simp
  moreover have "2 * 2 = length ?p" by simp
  moreover have "(\<forall>u \<in> set (grid_rows ?p @ grid_columns ?p @ grid_boxes 2 ?p).
                 distinct (present u) \<and> (None \<notin> set u \<longrightarrow> set (present u) = {1..length ?p}))"
    by code_simp
  ultimately have p: "is_correct_grid ?p = Inr True"
    using is_correct_grid_false_never_raises [of ?p ConfigurationError 2] by simp
  from d r p show ?thesis by blast
qed

end
